theory Spec2Isabelle
  imports Complex_Main "HOL-Library.List_Lexorder" "HOL-Library.Char_ord"
    "HOL-Library.Product_Lexorder"
begin

section \<open>The order table\<close>

text \<open>
  The dashboard of \<^verbatim>\<open>app.py\<close> works on one pandas frame of orders.
  A row is a record with the columns the callback reads. Numbers are exact
  rationals; a missing \<^verbatim>\<open>Sale_Amount\<close> (NaN) is \<open>None\<close>, and so is a
  missing \<^verbatim>\<open>Promotion_IDs\<close>. \<^verbatim>\<open>Order_Date\<close> is a naive timestamp,
  counted in seconds; \<^verbatim>\<open>.dt.date\<close> is its day number. Strings compare
  character by character, as Python strings do. The identifier, the date, the
  status, the category and the state are present in every row of the typed
  table, so \<^verbatim>\<open>count\<close> of \<^verbatim>\<open>Order_ID\<close> is the number of rows and no
  group-by loses a row to a missing key.
\<close>

record order =
  Order_ID :: string
  Order_Date :: int
  Order_Status :: string
  Sale_Amount :: "rat option"
  Product_Category :: string
  Fulfillment_Type :: string
  Shipping_State :: string
  Business_to_Business :: bool
  Promotion_IDs :: "string option"

definition dt_date :: "int \<Rightarrow> int" where
  "dt_date ts = ts div 86400"

text \<open>
  A frame is its rows together with the names of the derived columns that were
  assigned to it (\<^verbatim>\<open>Week\<close>, \<^verbatim>\<open>Month\<close>, \<^verbatim>\<open>Day\<close> at load
  time). The derived columns are functions of \<^verbatim>\<open>Order_Date\<close> and no
  aggregator reads them, so only their presence is recorded. Assigning a column
  that exists overwrites it in place; assigning a new one appends it.
\<close>

record frame =
  rows :: "order list"
  derived_columns :: "string list"

definition assign_column :: "string \<Rightarrow> frame \<Rightarrow> frame" where
  "assign_column c df =
     (if c \<in> set (derived_columns df) then df
      else df\<lparr>derived_columns := derived_columns df @ [c]\<rparr>)"

definition select_rows :: "(order \<Rightarrow> bool) \<Rightarrow> frame \<Rightarrow> frame" where
  "select_rows p df = df\<lparr>rows := filter p (rows df)\<rparr>"

section \<open>Series reductions\<close>

text \<open>\<^verbatim>\<open>Series.sum()\<close> skips NaN; the sum of no values is 0.\<close>

definition nan_to_zero :: "rat option \<Rightarrow> rat" where
  "nan_to_zero a = (case a of None \<Rightarrow> 0 | Some v \<Rightarrow> v)"

definition series_sum :: "rat option list \<Rightarrow> rat" where
  "series_sum xs = sum_list (map nan_to_zero xs)"

text \<open>\<^verbatim>\<open>Series.mean()\<close> skips NaN too; the mean of no values is NaN.\<close>

definition series_mean :: "rat option list \<Rightarrow> rat option" where
  "series_mean xs =
     (let vs = filter (\<lambda>a. a \<noteq> None) xs
      in if vs = [] then None else Some (series_sum vs / of_nat (length vs)))"

section \<open>Filtering\<close>

text \<open>
  The callback receives the two ends of the date picker and the dropdown value,
  each a string or \<^verbatim>\<open>None\<close>. Python takes \<^verbatim>\<open>None\<close> and the empty
  string for false. The filter itself works on the timestamps that
  \<^verbatim>\<open>pd.to_datetime\<close> made of the two dates; \<open>None\<close> is an end that was
  not parsed because the guard did not hold.
\<close>

definition truthy :: "string option \<Rightarrow> bool" where
  "truthy s = (case s of None \<Rightarrow> False | Some v \<Rightarrow> v \<noteq> [])"

definition filter_dates :: "int option \<Rightarrow> int option \<Rightarrow> frame \<Rightarrow> frame" where
  "filter_dates start_date end_date df =
     (case start_date of
        None \<Rightarrow> df
      | Some s \<Rightarrow>
          (case end_date of
             None \<Rightarrow> df
           | Some e \<Rightarrow> select_rows (\<lambda>r. Order_Date r \<ge> s \<and> Order_Date r \<le> e) df))"

definition filter_category :: "string option \<Rightarrow> frame \<Rightarrow> frame" where
  "filter_category selected_category df =
     (if truthy selected_category \<and> selected_category \<noteq> Some ''All Categories''
      then select_rows (\<lambda>r. Some (Product_Category r) = selected_category) df
      else df)"

definition is_cancelled :: "order \<Rightarrow> bool" where
  "is_cancelled r = (Order_Status r = ''Cancelled'')"

definition drop_cancelled :: "frame \<Rightarrow> frame" where
  "drop_cancelled df = select_rows (\<lambda>r. \<not> is_cancelled r) df"

section \<open>KPI cards\<close>

datatype error = ZeroDivisionError | ValueError

text \<open>Python's \<^verbatim>\<open>/\<close> raises on a zero divisor.\<close>

definition truediv :: "rat \<Rightarrow> rat \<Rightarrow> error + rat" where
  "truediv a b = (if b = 0 then Inl ZeroDivisionError else Inr (a / b))"

record kpis =
  total_orders :: nat
  total_revenue :: rat
  cancellation_rate :: rat
  avg_order_value :: rat

definition calc_cancellation_rate :: "nat \<Rightarrow> nat \<Rightarrow> error + rat" where
  "calc_cancellation_rate cancelled_orders n =
     (if n > 0
      then (case truediv (of_nat cancelled_orders) (of_nat n) of
              Inl e \<Rightarrow> Inl e
            | Inr q \<Rightarrow> Inr (q * 100))
      else Inr 0)"

definition calc_avg_order_value :: "rat \<Rightarrow> nat \<Rightarrow> error + rat" where
  "calc_avg_order_value revenue n =
     (if n > 0 then truediv revenue (of_nat n) else Inr 0)"

definition calc_kpis :: "order list \<Rightarrow> order list \<Rightarrow> error + kpis" where
  "calc_kpis filtered_data filtered_non_cancelled =
     (let n = length filtered_data;
          revenue = series_sum (map Sale_Amount filtered_non_cancelled);
          cancelled_orders = length (filter is_cancelled filtered_data)
      in case calc_cancellation_rate cancelled_orders n of
           Inl e \<Rightarrow> Inl e
         | Inr rate \<Rightarrow>
             (case calc_avg_order_value revenue (length filtered_non_cancelled) of
                Inl e \<Rightarrow> Inl e
              | Inr aov \<Rightarrow>
                  Inr \<lparr>total_orders = n, total_revenue = revenue,
                       cancellation_rate = rate, avg_order_value = aov\<rparr>))"

section \<open>Grouping and sorting\<close>

text \<open>
  \<^verbatim>\<open>groupby(col)\<close> makes one group for each value of the column, the
  groups in ascending order of that value (\<^verbatim>\<open>sort=True\<close> is the default);
  a value that no row has makes no group.
\<close>

definition group_keys :: "('r \<Rightarrow> 'k::linorder) \<Rightarrow> 'r list \<Rightarrow> 'k list" where
  "group_keys col df = sort (remdups (map col df))"

definition group_rows :: "('r \<Rightarrow> 'k) \<Rightarrow> 'k \<Rightarrow> 'r list \<Rightarrow> 'r list" where
  "group_rows col k df = filter (\<lambda>r. col r = k) df"

text \<open>
  \<^verbatim>\<open>.agg({'Sale_Amount': 'sum', 'Order_ID': 'count'}).reset_index()\<close>:
  one row for each group, with the group's value, its summed amount and its
  number of orders.
\<close>

record 'k agg_row =
  group_key :: 'k
  Sale_Amount_sum :: rat
  Order_ID_count :: nat

definition groupby_agg :: "(order \<Rightarrow> 'k::linorder) \<Rightarrow> order list \<Rightarrow> 'k agg_row list" where
  "groupby_agg col df =
     map (\<lambda>k. \<lparr>group_key = k,
                Sale_Amount_sum = series_sum (map Sale_Amount (group_rows col k df)),
                Order_ID_count = length (group_rows col k df)\<rparr>)
         (group_keys col df)"

text \<open>\<^verbatim>\<open>groupby(col).size().reset_index(name=...)\<close>.\<close>

definition groupby_size :: "('r \<Rightarrow> 'k::linorder) \<Rightarrow> 'r list \<Rightarrow> ('k \<times> nat) list" where
  "groupby_size col df = map (\<lambda>k. (k, length (group_rows col k df))) (group_keys col df)"

text \<open>
  \<^verbatim>\<open>sort_values(col, ascending=False)\<close>: pandas reverses the rows, takes an
  ascending argsort and reverses the outcome. The argsort is taken to be
  stable here, so rows that agree on the column stay in the order they had.
  \<^verbatim>\<open>sort_values(col)\<close> is the ascending argsort itself.
\<close>

definition sort_values_desc :: "('r \<Rightarrow> 'v::linorder) \<Rightarrow> 'r list \<Rightarrow> 'r list" where
  "sort_values_desc col df = rev (sort_key col (rev df))"

definition sort_values_asc :: "('r \<Rightarrow> 'v::linorder) \<Rightarrow> 'r list \<Rightarrow> 'r list" where
  "sort_values_asc col df = sort_key col df"

definition head :: "nat \<Rightarrow> 'r list \<Rightarrow> 'r list" where
  "head n df = take n df"

section \<open>Daily sales and the rolling average\<close>

text \<open>
  \<^verbatim>\<open>rolling(window=w, min_periods=minp).mean()\<close> over a column without
  NaN. The window of row \<open>i\<close> starts at \<open>max(0, i + 1 - w)\<close> and ends with
  row \<open>i\<close>. pandas keeps a running sum and a running number of observations:
  going from row \<open>i - 1\<close> to row \<open>i\<close> it removes the values that left the
  window and adds the value of row \<open>i\<close>; the mean is NaN while fewer than
  \<open>minp\<close> values are in the window.
\<close>

definition win_start :: "nat \<Rightarrow> nat \<Rightarrow> nat" where
  "win_start w i = (if i + 1 \<ge> w then i + 1 - w else 0)"

definition calc_mean :: "nat \<Rightarrow> nat \<Rightarrow> rat \<Rightarrow> rat option" where
  "calc_mean minp n s = (if n \<ge> minp \<and> n > 0 then Some (s / of_nat n) else None)"

record roll_state =
  sum_x :: rat
  nobs :: nat
  roll_out :: "rat option list"

definition roll_step :: "nat \<Rightarrow> nat \<Rightarrow> rat list \<Rightarrow> nat \<Rightarrow> roll_state \<Rightarrow> roll_state" where
  "roll_step w minp vals i st =
     (let gone = map (\<lambda>j. vals ! j) [win_start w (i - 1) ..< win_start w i];
          s = sum_x st - sum_list gone + vals ! i;
          n = nobs st - length gone + 1
      in \<lparr>sum_x = s, nobs = n, roll_out = roll_out st @ [calc_mean minp n s]\<rparr>)"

definition roll_mean :: "nat \<Rightarrow> nat \<Rightarrow> rat list \<Rightarrow> rat option list" where
  "roll_mean w minp vals =
     (case vals of
        [] \<Rightarrow> []
      | v # _ \<Rightarrow>
          roll_out (fold (roll_step w minp vals) [1 ..< length vals]
                    \<lparr>sum_x = v, nobs = 1, roll_out = [calc_mean minp 1 v]\<rparr>))"

text \<open>
  The mean the specification names: that of \<open>revenue[max(0, i - 6) .. i]\<close>,
  both ends included. On naturals \<open>i - 6\<close> is already 0 below 6.
\<close>

definition trailing_mean :: "rat list \<Rightarrow> nat \<Rightarrow> rat" where
  "trailing_mean revenue i =
     sum_list (take (i + 1 - (i - 6)) (drop (i - 6) revenue))
       / of_nat (length (take (i + 1 - (i - 6)) (drop (i - 6) revenue)))"

record daily_row =
  Date :: int
  Day_Orders :: nat
  Day_Amount :: rat
  Rolling_Avg :: "rat option"

definition order_day :: "order \<Rightarrow> int" where
  "order_day r = dt_date (Order_Date r)"

definition daily_sales :: "order list \<Rightarrow> daily_row list" where
  "daily_sales filtered_data =
     (let g = groupby_agg order_day filtered_data;
          avg = roll_mean 7 1 (map Sale_Amount_sum g)
      in map (\<lambda>(a, m). \<lparr>Date = group_key a, Day_Orders = Order_ID_count a,
                         Day_Amount = Sale_Amount_sum a, Rolling_Avg = m\<rparr>)
             (zip g avg))"

section \<open>Rankings\<close>

definition category_sales :: "order list \<Rightarrow> string agg_row list" where
  "category_sales filtered_non_cancelled =
     head 10 (sort_values_desc Sale_Amount_sum
                (groupby_agg Product_Category filtered_non_cancelled))"

definition state_sales :: "order list \<Rightarrow> string agg_row list" where
  "state_sales filtered_non_cancelled =
     head 10 (sort_values_desc Sale_Amount_sum
                (groupby_agg Shipping_State filtered_non_cancelled))"

section \<open>Cancellation analysis\<close>

text \<open>
  \<^verbatim>\<open>groupby(['Product_Category', 'Order_Status']).size().unstack(fill_value=0)\<close>
  has one row for each category and one column for each status that occurs.
  Only when a column \<^verbatim>\<open>Cancelled\<close> is among them is the bar chart built:
  two bars for each category, the cancelled and the other orders, sorted by the
  category's number of orders. Otherwise the figure is the empty placeholder
  titled "No cancellation data available". The percentage labels of the bars
  are not part of the model.
\<close>

record cancel_bar =
  Bar_Category :: string
  Total_Orders :: nat
  Status :: string
  Count :: nat

datatype cancel_figure = No_Cancellation_Data | Cancel_Bars "cancel_bar list"

definition status_columns :: "order list \<Rightarrow> string list" where
  "status_columns filtered_data = group_keys Order_Status filtered_data"

definition cancelled_bar :: "order list \<Rightarrow> string \<Rightarrow> cancel_bar" where
  "cancelled_bar filtered_data c =
     \<lparr>Bar_Category = c,
      Total_Orders = length (group_rows Product_Category c filtered_data),
      Status = ''Cancelled'',
      Count = length (filter is_cancelled (group_rows Product_Category c filtered_data))\<rparr>"

definition not_cancelled_bar :: "order list \<Rightarrow> string \<Rightarrow> cancel_bar" where
  "not_cancelled_bar filtered_data c =
     \<lparr>Bar_Category = c,
      Total_Orders = length (group_rows Product_Category c filtered_data),
      Status = ''Not_Cancelled'',
      Count = length (group_rows Product_Category c filtered_data)
              - length (filter is_cancelled (group_rows Product_Category c filtered_data))\<rparr>"

definition cancel_chart :: "order list \<Rightarrow> cancel_figure" where
  "cancel_chart filtered_data =
     (if ''Cancelled'' \<in> set (status_columns filtered_data)
      then Cancel_Bars
             (sort_values_desc Total_Orders
                (map (cancelled_bar filtered_data) (group_keys Product_Category filtered_data)
                 @ map (not_cancelled_bar filtered_data)
                     (group_keys Product_Category filtered_data)))
      else No_Cancellation_Data)"

section \<open>State by category\<close>

definition state_category :: "order \<Rightarrow> string \<times> string" where
  "state_category r = (Shipping_State r, Product_Category r)"

definition top_n_states_list :: "nat \<Rightarrow> order list \<Rightarrow> string list" where
  "top_n_states_list N df =
     map fst (head N (sort_values_desc snd (groupby_size Shipping_State df)))"

definition state_category_orders_filtered ::
    "nat \<Rightarrow> order list \<Rightarrow> ((string \<times> string) \<times> nat) list" where
  "state_category_orders_filtered N df =
     filter (\<lambda>row. fst (fst row) \<in> set (top_n_states_list N df))
       (groupby_size state_category df)"

text \<open>
  \<^verbatim>\<open>pivot(index, columns, values)\<close> labels the rows and the columns with the
  values that occur, each in ascending order; a pair without a row is NaN, which
  \<^verbatim>\<open>fillna(0)\<close> replaces.
\<close>

record heatmap =
  hm_index :: "string list"
  hm_columns :: "string list"
  hm_values :: "nat list list"

definition fillna :: "nat \<Rightarrow> nat option \<Rightarrow> nat" where
  "fillna d v = (case v of None \<Rightarrow> d | Some n \<Rightarrow> n)"

definition pivot :: "((string \<times> string) \<times> nat) list \<Rightarrow> heatmap" where
  "pivot long =
     (let idx = group_keys (\<lambda>row. fst (fst row)) long;
          cols = group_keys (\<lambda>row. snd (fst row)) long
      in \<lparr>hm_index = idx, hm_columns = cols,
          hm_values = map (\<lambda>s. map (\<lambda>c. fillna 0 (map_of long (s, c))) cols) idx\<rparr>)"

definition heatmap_data :: "nat \<Rightarrow> order list \<Rightarrow> heatmap" where
  "heatmap_data N df = pivot (state_category_orders_filtered N df)"

text \<open>
  For the stacked bars the state column becomes a categorical whose categories
  are the top states in ranking order, and the rows are sorted by it.
\<close>

definition categorical_code :: "'a list \<Rightarrow> 'a \<Rightarrow> nat" where
  "categorical_code cats x = length (takeWhile (\<lambda>y. y \<noteq> x) cats)"

definition stacked_bar_data :: "nat \<Rightarrow> order list \<Rightarrow> ((string \<times> string) \<times> nat) list" where
  "stacked_bar_data N df =
     sort_values_asc (\<lambda>row. categorical_code (top_n_states_list N df) (fst (fst row)))
       (state_category_orders_filtered N df)"

section \<open>Promotion impact\<close>

record promo_row =
  Has_Promotion :: bool
  Total_Sales :: rat
  Average_Order_Value :: "rat option"
  Order_Count :: nat
  Promotion :: string

definition has_promo :: "order \<Rightarrow> bool" where
  "has_promo r = (Promotion_IDs r \<noteq> None)"

definition promo_impact :: "order list \<Rightarrow> promo_row list" where
  "promo_impact filtered_non_cancelled =
     map (\<lambda>k. \<lparr>Has_Promotion = k,
                Total_Sales =
                  series_sum (map Sale_Amount (group_rows has_promo k filtered_non_cancelled)),
                Average_Order_Value =
                  series_mean (map Sale_Amount (group_rows has_promo k filtered_non_cancelled)),
                Order_Count = length (group_rows has_promo k filtered_non_cancelled),
                Promotion = (if k then ''With Promotion'' else ''No Promotion'')\<rparr>)
         (group_keys has_promo filtered_non_cancelled)"

section \<open>The callback\<close>

text \<open>
  The module keeps the loaded table and its non-cancelled part in two globals;
  the callback binds two more on every call. \<open>None\<close> is a name not bound yet.
\<close>

record globals =
  amazon_sales_data :: frame
  non_cancelled_orders :: frame
  amazon_sales_data_filtered :: "frame option"
  non_cancelled_orders_filtered :: "frame option"

definition load_and_preprocess_data :: "order list \<Rightarrow> frame \<times> frame" where
  "load_and_preprocess_data csv =
     (let df = \<lparr>rows = csv, derived_columns = []\<rparr>;
          nc = drop_cancelled df
      in (assign_column ''Day'' (assign_column ''Month'' (assign_column ''Week'' df)), nc))"

definition module_globals :: "order list \<Rightarrow> globals" where
  "module_globals csv =
     \<lparr>amazon_sales_data = fst (load_and_preprocess_data csv),
      non_cancelled_orders = snd (load_and_preprocess_data csv),
      amazon_sales_data_filtered = None,
      non_cancelled_orders_filtered = None\<rparr>"

text \<open>
  Three things the callback calls are taken as given. \<^verbatim>\<open>pd.to_datetime\<close>
  makes a timestamp of a string or raises. The section that draws the bubble
  chart of cancellations by state and the section that draws the monthly chart
  of the two largest categories read the loaded table only, bind no global and
  assign no column of it; what they draw, and whether they raise, is left to
  them. All results below hold whatever the three do.
\<close>

record 'f library =
  to_datetime :: "string \<Rightarrow> error + int"
  bubble_section :: "frame \<Rightarrow> error + 'f"
  monthly_section :: "frame \<Rightarrow> error + 'f"

text \<open>
  The guard \<^verbatim>\<open>if start_date and end_date\<close>: only when both strings are true
  are they parsed, the start first, and either parse may raise.
\<close>

definition parse_dates ::
    "(string \<Rightarrow> error + int) \<Rightarrow> string option \<Rightarrow> string option
       \<Rightarrow> error + int option \<times> int option" where
  "parse_dates to_dt start_date end_date =
     (case start_date of
        None \<Rightarrow> Inr (None, None)
      | Some a \<Rightarrow>
          (case end_date of
             None \<Rightarrow> Inr (None, None)
           | Some b \<Rightarrow>
               if a \<noteq> [] \<and> b \<noteq> []
               then (case to_dt a of
                       Inl x \<Rightarrow> Inl x
                     | Inr s \<Rightarrow>
                         (case to_dt b of
                            Inl x \<Rightarrow> Inl x
                          | Inr e \<Rightarrow> Inr (Some s, Some e)))
               else Inr (None, None)))"

definition filtered_data_of :: "frame \<Rightarrow> int option \<Rightarrow> int option \<Rightarrow> string option \<Rightarrow> frame" where
  "filtered_data_of base start_date end_date selected_category =
     filter_category selected_category (filter_dates start_date end_date base)"

text \<open>
  The state by category section reads the global \<^verbatim>\<open>non_cancelled_orders\<close>
  and nothing of the request. It builds two figures, \<^verbatim>\<open>fig_heatmap\<close> from
  the matrix and \<^verbatim>\<open>fig_stacked_bar\<close> from the long table.
\<close>

definition state_category_section ::
    "globals \<Rightarrow> heatmap \<times> ((string \<times> string) \<times> nat) list" where
  "state_category_section g =
     (let N = 15;
          fig_heatmap = heatmap_data N (rows (non_cancelled_orders g));
          stacked_bar = stacked_bar_data N (rows (non_cancelled_orders g))
      in (fig_heatmap, stacked_bar))"

text \<open>
  What the callback returns, in the order of its \<^verbatim>\<open>return\<close>. A figure is
  taken to be the frame it draws, and drawing a frame computed here is taken not
  to raise. \<^verbatim>\<open>fig_heatmap\<close> is not among the figures returned: the stacked
  bars stand in its place.
\<close>

record 'f dashboard =
  kpi_cards :: kpis
  daily_chart :: "daily_row list"
  category_chart :: "string agg_row list"
  fulfillment_chart :: "string agg_row list"
  geo_chart :: "string agg_row list"
  fig_stacked_bar :: "((string \<times> string) \<times> nat) list"
  order_fig :: 'f
  b2b_chart :: 'f
  cancel_figure :: cancel_figure
  promo_chart :: "promo_row list"

text \<open>
  A call ends with the globals as it left them and either the figures or the
  exception raised. The globals of the filtered views are bound before any
  figure is made; the column \<^verbatim>\<open>Month_Name\<close> is assigned after the bubble
  chart and before the monthly chart. The assignment to \<^verbatim>\<open>Order_Date\<close> just
  before it parses timestamps again and leaves the column as it was.
\<close>

definition update_dashboard ::
    "'f library \<Rightarrow> globals \<Rightarrow> string option \<Rightarrow> string option \<Rightarrow> string option
       \<Rightarrow> globals \<times> (error + 'f dashboard)" where
  "update_dashboard lib g start_date end_date selected_category =
     (case parse_dates (to_datetime lib) start_date end_date of
        Inl x \<Rightarrow> (g, Inl x)
      | Inr (s, e) \<Rightarrow>
          (let filtered_data = filtered_data_of (amazon_sales_data g) s e selected_category;
               filtered_non_cancelled = drop_cancelled filtered_data;
               g1 = g\<lparr>amazon_sales_data_filtered := Some filtered_data,
                      non_cancelled_orders_filtered := Some filtered_non_cancelled\<rparr>
           in case calc_kpis (rows filtered_data) (rows filtered_non_cancelled) of
                Inl x \<Rightarrow> (g1, Inl x)
              | Inr k \<Rightarrow>
                  (case bubble_section lib (amazon_sales_data g1) of
                     Inl x \<Rightarrow> (g1, Inl x)
                   | Inr fig_cancellations_bubble \<Rightarrow>
                       (let (fig_heatmap, stacked_bar) = state_category_section g1;
                            g2 = g1\<lparr>amazon_sales_data :=
                                      assign_column ''Month_Name'' (amazon_sales_data g1)\<rparr>
                        in case monthly_section lib (amazon_sales_data g2) of
                             Inl x \<Rightarrow> (g2, Inl x)
                           | Inr monthly_fig \<Rightarrow>
                               (g2,
                                Inr \<lparr>kpi_cards = k,
                                     daily_chart = daily_sales (rows filtered_data),
                                     category_chart =
                                       category_sales (rows filtered_non_cancelled),
                                     fulfillment_chart =
                                       groupby_agg Fulfillment_Type (rows filtered_non_cancelled),
                                     geo_chart = state_sales (rows filtered_non_cancelled),
                                     fig_stacked_bar = stacked_bar,
                                     order_fig = monthly_fig,
                                     b2b_chart = fig_cancellations_bubble,
                                     cancel_figure = cancel_chart (rows filtered_data),
                                     promo_chart =
                                       promo_impact (rows filtered_non_cancelled)\<rparr>)))))"

section \<open>Small tables\<close>

text \<open>Orders to run the definitions on; fulfilment and business flag are fixed.\<close>

definition an_order ::
    "string \<Rightarrow> int \<Rightarrow> string \<Rightarrow> rat option \<Rightarrow> string \<Rightarrow> string \<Rightarrow> string option \<Rightarrow> order" where
  "an_order oid ts status amount cat state promo =
     \<lparr>Order_ID = oid, Order_Date = ts, Order_Status = status, Sale_Amount = amount,
      Product_Category = cat, Fulfillment_Type = ''Amazon'', Shipping_State = state,
      Business_to_Business = False, Promotion_IDs = promo\<rparr>"

definition order_a :: order where
  "order_a = an_order ''A1'' 0 ''Shipped'' (Some 10) ''Kurta'' ''MH'' None"

definition order_b :: order where
  "order_b = an_order ''B2'' 86400 ''Shipped'' (Some 5) ''Set'' ''MH'' (Some ''PROMO1'')"

definition order_c :: order where
  "order_c = an_order ''C3'' 86460 ''Shipped'' (Some 5) ''Set'' ''KA'' (Some ''PROMO2'')"

definition order_d :: order where
  "order_d = an_order ''D4'' 259200 ''Cancelled'' (Some 7) ''Top'' ''KA'' None"

definition shipped_orders :: "order list" where
  "shipped_orders = [order_a, order_b, order_c]"

definition all_orders :: "order list" where
  "all_orders = [order_a, order_b, order_c, order_d]"

text \<open>
  The scenario of three orders with revenues 100, 200 and 300, the first
  cancelled, the last with a promotion.
\<close>

definition scenario_orders :: "order list" where
  "scenario_orders =
     [an_order ''S1'' 0 ''Cancelled'' (Some 100) ''Kurta'' ''MH'' None,
      an_order ''S2'' 86400 ''Shipped'' (Some 200) ''Set'' ''MH'' None,
      an_order ''S3'' 172800 ''Shipped'' (Some 300) ''Set'' ''KA'' (Some ''PROMO1'')]"

text \<open>
  A library to run the callback with: it parses two dates and refuses every
  other string, and its two sections draw nothing and never raise.
\<close>

definition sample_library :: "unit library" where
  "sample_library =
     \<lparr>to_datetime =
        (\<lambda>s. if s = ''1970-01-01'' then Inr 0
             else if s = ''1970-01-02'' then Inr 86400
             else Inl ValueError),
      bubble_section = (\<lambda>df. Inr ()),
      monthly_section = (\<lambda>df. Inr ())\<rparr>"

text \<open>What a call leaves in the globals, and what it hands back.\<close>

definition globals_after :: "globals \<times> (error + 'f dashboard) \<Rightarrow> globals" where
  "globals_after res = fst res"

definition figures_of :: "globals \<times> (error + 'f dashboard) \<Rightarrow> 'f dashboard option" where
  "figures_of res = (case snd res of Inl x \<Rightarrow> None | Inr d \<Rightarrow> Some d)"

section \<open>Auxiliary notions\<close>

text \<open>The sum over the window of row \<open>i\<close>, and what the running sums hold after row \<open>k\<close>.\<close>

definition win_sum :: "nat \<Rightarrow> rat list \<Rightarrow> nat \<Rightarrow> rat" where
  "win_sum w vals i = sum_list (map (\<lambda>j. vals ! j) [win_start w i ..< Suc i])"

definition roll_inv :: "nat \<Rightarrow> nat \<Rightarrow> rat list \<Rightarrow> nat \<Rightarrow> roll_state \<Rightarrow> bool" where
  "roll_inv w m vals k st =
     (sum_x st = win_sum w vals k \<and> nobs st = Suc k - win_start w k \<and>
      roll_out st =
        map (\<lambda>i. calc_mean m (Suc i - win_start w i) (win_sum w vals i)) [0 ..< Suc k])"

text \<open>
  The order of a ranking: the larger value of the column first, and among equal
  values the smaller key first.
\<close>

definition ranked_before :: "('r \<Rightarrow> 'v::linorder) \<Rightarrow> ('r \<Rightarrow> 'k::linorder) \<Rightarrow> 'r \<Rightarrow> 'r \<Rightarrow> bool" where
  "ranked_before col k a b = (col b < col a \<or> (col a = col b \<and> k a < k b))"

section \<open>Properties of the KPI cards\<close>

lemma calc_cancellation_rate_value:
  "calc_cancellation_rate c n =
     Inr (if n = 0 then 0 else of_nat c / of_nat n * 100)"
  by (simp add: calc_cancellation_rate_def truediv_def)

lemma calc_avg_order_value_value:
  "calc_avg_order_value v n = Inr (if n = 0 then 0 else v / of_nat n)"
  by (simp add: calc_avg_order_value_def truediv_def)

text \<open>
  C1. For any pair of views the KPI computation raises nothing and returns the
  number of rows of the full view, the sum of the sale amounts of the
  non-cancelled view (a missing amount adds nothing), the share of the rows of
  the full view whose status is \<^verbatim>\<open>Cancelled\<close> times 100 (0 for an empty
  view), and the revenue per non-cancelled row (0 when there is none).
\<close>

theorem kpis_values:
  "calc_kpis fd fnc =
     Inr \<lparr>total_orders = length fd,
          total_revenue =
            sum_list (map (\<lambda>r. case Sale_Amount r of None \<Rightarrow> 0 | Some v \<Rightarrow> v) fnc),
          cancellation_rate =
            (if length fd = 0 then 0
             else of_nat (length (filter (\<lambda>r. Order_Status r = ''Cancelled'') fd))
                    / of_nat (length fd) * 100),
          avg_order_value =
            (if length fnc = 0 then 0
             else sum_list (map (\<lambda>r. case Sale_Amount r of None \<Rightarrow> 0 | Some v \<Rightarrow> v) fnc)
                    / of_nat (length fnc))\<rparr>"
proof -
  have s: "series_sum (map Sale_Amount fnc) =
      sum_list (map (\<lambda>r. case Sale_Amount r of None \<Rightarrow> 0 | Some v \<Rightarrow> v) fnc)"
    by (simp add: series_sum_def nan_to_zero_def comp_def)
  have c: "filter (\<lambda>r. Order_Status r = ''Cancelled'') fd = filter is_cancelled fd"
    by (rule filter_cong) (simp_all add: is_cancelled_def)
  show ?thesis
    unfolding c s [symmetric]
    by (simp add: calc_kpis_def Let_def calc_cancellation_rate_value
        calc_avg_order_value_value)
qed

theorem kpis_values_witness:
  "calc_kpis scenario_orders
     (rows (drop_cancelled \<lparr>rows = scenario_orders, derived_columns = []\<rparr>)) =
     Inr \<lparr>total_orders = 3, total_revenue = 500, cancellation_rate = 100 / 3,
          avg_order_value = 250\<rparr> \<and>
   calc_kpis [] [] =
     Inr \<lparr>total_orders = 0, total_revenue = 0, cancellation_rate = 0, avg_order_value = 0\<rparr>"
proof -
  have n: "length scenario_orders = 3" by code_simp
  have k: "length (filter (\<lambda>r. Order_Status r = ''Cancelled'') scenario_orders) = 1"
    by code_simp
  have m: "length (rows (drop_cancelled \<lparr>rows = scenario_orders, derived_columns = []\<rparr>)) = 2"
    by code_simp
  have v: "sum_list (map (\<lambda>r. case Sale_Amount r of None \<Rightarrow> 0 | Some v \<Rightarrow> v)
             (rows (drop_cancelled \<lparr>rows = scenario_orders, derived_columns = []\<rparr>))) = 500"
    by code_simp
  show ?thesis
    using kpis_values [of scenario_orders
        "rows (drop_cancelled \<lparr>rows = scenario_orders, derived_columns = []\<rparr>)"]
      kpis_values [of "[]" "[]"]
    by (simp add: n k m v)
qed

section \<open>Properties of the daily series\<close>


lemma roll_out_length:
  "length (roll_out (fold (roll_step w m vals) is st)) = length (roll_out st) + length is"
  by (induction "is" arbitrary: st) (simp_all add: roll_step_def Let_def)

lemma roll_mean_length: "length (roll_mean w m vals) = length vals"
  by (cases vals) (simp_all add: roll_mean_def roll_out_length del: upt_Suc)

lemma win_start_le: "0 < w \<Longrightarrow> win_start w i \<le> i"
  unfolding win_start_def by arith

lemma win_start_mono: "win_start w i \<le> win_start w (Suc i)"
  unfolding win_start_def by arith

lemma win_sum_Suc:
  assumes "0 < w"
  shows "win_sum w vals (Suc i) =
           win_sum w vals i
             - sum_list (map (\<lambda>j. vals ! j) [win_start w i ..< win_start w (Suc i)])
             + vals ! Suc i"
proof -
  have le1: "win_start w i \<le> win_start w (Suc i)" by (rule win_start_mono)
  have le2: "win_start w (Suc i) \<le> Suc i" using assms win_start_le [of w "Suc i"] by simp
  have "[win_start w i ..< Suc i] =
          [win_start w i ..< win_start w (Suc i)] @ [win_start w (Suc i) ..< Suc i]"
    using le1 le2 by (metis le_Suc_ex upt_add_eq_append)
  then have "win_sum w vals i =
          sum_list (map (\<lambda>j. vals ! j) [win_start w i ..< win_start w (Suc i)])
          + sum_list (map (\<lambda>j. vals ! j) [win_start w (Suc i) ..< Suc i])"
    by (simp add: win_sum_def)
  moreover have "win_sum w vals (Suc i) =
          sum_list (map (\<lambda>j. vals ! j) [win_start w (Suc i) ..< Suc i]) + vals ! Suc i"
    using le2 by (simp add: win_sum_def)
  ultimately show ?thesis by simp
qed

lemma roll_inv_step:
  assumes "0 < w" and "roll_inv w m vals k st"
  shows "roll_inv w m vals (Suc k) (roll_step w m vals (Suc k) st)"
proof -
  have le1: "win_start w k \<le> win_start w (Suc k)" by (rule win_start_mono)
  have le2: "win_start w (Suc k) \<le> Suc k" using assms(1) win_start_le [of w "Suc k"] by simp
  have le3: "win_start w k \<le> k" using assms(1) by (rule win_start_le)
  have n: "Suc k - win_start w k - (win_start w (Suc k) - win_start w k) + 1
             = Suc (Suc k) - win_start w (Suc k)"
    using le1 le2 le3 by arith
  show ?thesis
    using assms(2) n
    by (simp add: roll_inv_def roll_step_def Let_def win_sum_Suc [OF assms(1)])
qed

lemma roll_inv_fold:
  assumes "0 < w" and "roll_inv w m vals 0 st"
  shows "roll_inv w m vals k (fold (roll_step w m vals) [1 ..< Suc k] st)"
proof (induction k)
  case 0
  then show ?case using assms(2) by simp
next
  case (Suc k)
  have "[1 ..< Suc (Suc k)] = [1 ..< Suc k] @ [Suc k]" by simp
  then show ?case using roll_inv_step [OF assms(1) Suc] by (simp del: upt_Suc)
qed

lemma roll_inv_start:
  "0 < w \<Longrightarrow> roll_inv w m (v # vs) 0 \<lparr>sum_x = v, nobs = 1, roll_out = [calc_mean m 1 v]\<rparr>"
  by (auto simp add: roll_inv_def win_sum_def win_start_def)

lemma roll_mean_nth:
  assumes "0 < w" and "i < length vals"
  shows "roll_mean w m vals ! i = calc_mean m (Suc i - win_start w i) (win_sum w vals i)"
proof (cases vals)
  case Nil
  then show ?thesis using assms(2) by simp
next
  case (Cons v vs)
  have "roll_inv w m vals (length vs) (fold (roll_step w m vals) [1 ..< Suc (length vs)]
          \<lparr>sum_x = v, nobs = 1, roll_out = [calc_mean m 1 v]\<rparr>)"
    using roll_inv_fold [OF assms(1)] roll_inv_start [OF assms(1)] Cons by blast
  then have "roll_mean w m vals =
      map (\<lambda>i. calc_mean m (Suc i - win_start w i) (win_sum w vals i)) [0 ..< Suc (length vs)]"
    using Cons by (simp add: roll_mean_def roll_inv_def del: upt_Suc)
  then show ?thesis using assms(2) Cons by (simp del: upt_Suc)
qed

lemma take_drop_nth: "a + n \<le> length xs \<Longrightarrow> take n (drop a xs) = map (\<lambda>j. xs ! j) [a ..< a + n]"
  by (simp add: list_eq_iff_nth_eq)

lemma trailing_mean_win:
  assumes "i < length revenue"
  shows "trailing_mean revenue i = win_sum 7 revenue i / of_nat (Suc i - win_start 7 i)"
proof -
  have s: "win_start 7 i = i - 6" by (simp add: win_start_def)
  have "take (i + 1 - (i - 6)) (drop (i - 6) revenue) =
          map (\<lambda>j. revenue ! j) [i - 6 ..< (i - 6) + (i + 1 - (i - 6))]"
    using assms by (intro take_drop_nth) arith
  moreover have "(i - 6) + (i + 1 - (i - 6)) = Suc i" by arith
  ultimately have "take (i + 1 - (i - 6)) (drop (i - 6) revenue) =
          map (\<lambda>j. revenue ! j) [i - 6 ..< Suc i]" by simp
  then show ?thesis by (simp add: trailing_mean_def win_sum_def s del: upt_Suc)
qed

lemma roll_mean_trailing:
  assumes "i < length revenue"
  shows "roll_mean 7 1 revenue ! i = Some (trailing_mean revenue i)"
proof -
  have "win_start 7 i \<le> i" by (simp add: win_start_def)
  then have "Suc i - win_start 7 i > 0" by arith
  then show ?thesis
    using roll_mean_nth [of 7 i revenue 1] trailing_mean_win [OF assms] assms
    by (simp add: calc_mean_def)
qed


lemma group_keys_set: "set (group_keys col df) = col ` set df"
  by (simp add: group_keys_def)

lemma group_keys_sorted: "sorted (group_keys col df)"
  by (simp add: group_keys_def)

lemma group_keys_distinct: "distinct (group_keys col df)"
  by (simp add: group_keys_def)

lemma group_keys_strict: "sorted_wrt (<) (group_keys col df)"
  by (simp add: strict_sorted_iff group_keys_sorted group_keys_distinct)

lemma groupby_agg_length: "length (groupby_agg col df) = length (group_keys col df)"
  by (simp add: groupby_agg_def)

lemma groupby_agg_keys: "map group_key (groupby_agg col df) = group_keys col df"
  by (simp add: groupby_agg_def comp_def)

lemma groupby_agg_row:
  "a \<in> set (groupby_agg col df) \<Longrightarrow>
     Sale_Amount_sum a = series_sum (map Sale_Amount (group_rows col (group_key a) df)) \<and>
     Order_ID_count a = length (group_rows col (group_key a) df)"
  by (auto simp add: groupby_agg_def)

lemma daily_sales_length: "length (daily_sales fd) = length (group_keys order_day fd)"
  by (simp add: daily_sales_def Let_def roll_mean_length groupby_agg_length)

lemma daily_sales_nth:
  assumes "i < length (daily_sales fd)"
  shows "daily_sales fd ! i =
           \<lparr>Date = group_key (groupby_agg order_day fd ! i),
            Day_Orders = Order_ID_count (groupby_agg order_day fd ! i),
            Day_Amount = Sale_Amount_sum (groupby_agg order_day fd ! i),
            Rolling_Avg = roll_mean 7 1 (map Sale_Amount_sum (groupby_agg order_day fd)) ! i\<rparr>"
  using assms
  by (simp add: daily_sales_def Let_def roll_mean_length groupby_agg_length)

lemma daily_sales_dates: "map Date (daily_sales fd) = group_keys order_day fd"
proof (rule nth_equalityI)
  show "length (map Date (daily_sales fd)) = length (group_keys order_day fd)"
    by (simp add: daily_sales_length)
next
  fix i assume "i < length (map Date (daily_sales fd))"
  then have i: "i < length (daily_sales fd)" by simp
  then have "i < length (groupby_agg order_day fd)"
    by (simp add: daily_sales_length groupby_agg_length)
  then have "group_key (groupby_agg order_day fd ! i) = group_keys order_day fd ! i"
    using groupby_agg_keys [of order_day fd] by (metis nth_map)
  then show "map Date (daily_sales fd) ! i = group_keys order_day fd ! i"
    using i by (simp add: daily_sales_nth)
qed

lemma daily_sales_amounts:
  "map Day_Amount (daily_sales fd) = map Sale_Amount_sum (groupby_agg order_day fd)"
proof (rule nth_equalityI)
  show "length (map Day_Amount (daily_sales fd)) = length (map Sale_Amount_sum (groupby_agg order_day fd))"
    by (simp add: daily_sales_length groupby_agg_length)
next
  fix i assume "i < length (map Day_Amount (daily_sales fd))"
  then have i: "i < length (daily_sales fd)" by simp
  then show "map Day_Amount (daily_sales fd) ! i = map Sale_Amount_sum (groupby_agg order_day fd) ! i"
    by (simp add: daily_sales_nth daily_sales_length groupby_agg_length)
qed

lemma daily_sales_row:
  assumes "row \<in> set (daily_sales fd)"
  shows "Day_Orders row = length (group_rows order_day (Date row) fd) \<and>
         Day_Amount row = series_sum (map Sale_Amount (group_rows order_day (Date row) fd))"
proof -
  from assms obtain i where i: "i < length (daily_sales fd)" and r: "row = daily_sales fd ! i"
    by (auto simp add: in_set_conv_nth)
  have "i < length (groupby_agg order_day fd)"
    using i by (simp add: daily_sales_length groupby_agg_length)
  then have "groupby_agg order_day fd ! i \<in> set (groupby_agg order_day fd)" by simp
  from groupby_agg_row [OF this] show ?thesis
    using i r by (simp add: daily_sales_nth)
qed

text \<open>
  C9. The daily series is grouped from the view it is given, which the callback
  takes to be the full filtered view: the dates are strictly ascending, they are
  exactly the days on which the view has an order, and each row counts and sums
  all orders of its day, whatever their status. No row has a zero count, so no
  day is invented.
\<close>

theorem daily_sales_per_day:
  "sorted_wrt (<) (map Date (daily_sales fd)) \<and>
   set (map Date (daily_sales fd)) = order_day ` set fd \<and>
   (\<forall>row \<in> set (daily_sales fd).
      Day_Orders row = length (filter (\<lambda>r. order_day r = Date row) fd) \<and>
      Day_Amount row = series_sum (map Sale_Amount (filter (\<lambda>r. order_day r = Date row) fd)) \<and>
      0 < Day_Orders row)"
proof (intro conjI ballI)
  show "sorted_wrt (<) (map Date (daily_sales fd))"
    by (simp only: daily_sales_dates group_keys_strict)
  show d: "set (map Date (daily_sales fd)) = order_day ` set fd"
    by (simp only: daily_sales_dates group_keys_set)
  fix row assume row: "row \<in> set (daily_sales fd)"
  show "Day_Orders row = length (filter (\<lambda>r. order_day r = Date row) fd)"
    using daily_sales_row [OF row] by (simp add: group_rows_def)
  show "Day_Amount row = series_sum (map Sale_Amount (filter (\<lambda>r. order_day r = Date row) fd))"
    using daily_sales_row [OF row] by (simp add: group_rows_def)
  have "Date row \<in> order_day ` set fd" using row d by auto
  then obtain r where "r \<in> set fd" and "order_day r = Date row" by auto
  then have "filter (\<lambda>r. order_day r = Date row) fd \<noteq> []"
    by (auto simp add: filter_empty_conv)
  then show "0 < Day_Orders row"
    using daily_sales_row [OF row] by (simp add: group_rows_def)
qed

theorem daily_sales_per_day_witness:
  "map Date (daily_sales all_orders) = [0, 1, 3] \<and>
   map Day_Orders (daily_sales all_orders) = [1, 2, 1] \<and>
   map Day_Amount (daily_sales all_orders) = [10, 10, 7] \<and>
   set (map Date (daily_sales all_orders)) = order_day ` set all_orders"
proof -
  have "map Date (daily_sales all_orders) = [0, 1, 3]" by code_simp
  moreover have "map Day_Orders (daily_sales all_orders) = [1, 2, 1]" by code_simp
  moreover have "map Day_Amount (daily_sales all_orders) = [10, 10, 7]" by code_simp
  ultimately show ?thesis using daily_sales_per_day [of all_orders] by simp
qed

text \<open>
  C5. At every position \<open>i\<close> of the daily series the rolling average that
  pandas accumulates is the mean of \<open>revenue[max(0, i - 6) .. i]\<close>; at position
  0 it is the revenue of the first day, and below position 6 it is the mean of
  the first \<open>i + 1\<close> revenues. It is never undefined.
\<close>

theorem rolling_avg_trailing_mean:
  assumes "i < length (daily_sales fd)"
  shows "Rolling_Avg (daily_sales fd ! i) =
           Some (trailing_mean (map Day_Amount (daily_sales fd)) i) \<and>
         (i = 0 \<longrightarrow> Rolling_Avg (daily_sales fd ! i) = Some (Day_Amount (daily_sales fd ! 0))) \<and>
         (i < 6 \<longrightarrow> Rolling_Avg (daily_sales fd ! i) =
              Some (sum_list (take (i + 1) (map Day_Amount (daily_sales fd))) / of_nat (i + 1)))"
proof -
  let ?rev = "map Day_Amount (daily_sales fd)"
  have len: "i < length ?rev" using assms by simp
  have main: "Rolling_Avg (daily_sales fd ! i) = Some (trailing_mean ?rev i)"
    using assms roll_mean_trailing [OF len]
    by (simp add: daily_sales_nth daily_sales_amounts)
  have short: "i < 6 \<Longrightarrow> trailing_mean ?rev i = sum_list (take (i + 1) ?rev) / of_nat (i + 1)"
    using len by (simp add: trailing_mean_def min_def)
  have first: "i = 0 \<Longrightarrow> trailing_mean ?rev i = Day_Amount (daily_sales fd ! 0)"
    using len by (simp add: trailing_mean_def take_Suc_conv_app_nth)
  show ?thesis
  proof (intro conjI impI)
    show "Rolling_Avg (daily_sales fd ! i) = Some (trailing_mean ?rev i)" by (rule main)
    show "Rolling_Avg (daily_sales fd ! i) = Some (Day_Amount (daily_sales fd ! 0))" if "i = 0"
      using main first [OF that] by simp
    show "Rolling_Avg (daily_sales fd ! i) = Some (sum_list (take (i + 1) ?rev) / of_nat (i + 1))"
      if "i < 6"
      using main short [OF that] by simp
  qed
qed

theorem rolling_avg_trailing_mean_witness:
  "2 < length (daily_sales all_orders) \<and>
   Rolling_Avg (daily_sales all_orders ! 2) = Some 9 \<and>
   trailing_mean (map Day_Amount (daily_sales all_orders)) 2 = 9"
proof -
  have l: "length (daily_sales all_orders) = 3" by code_simp
  have t: "trailing_mean (map Day_Amount (daily_sales all_orders)) 2 = 9" by code_simp
  have "(2::nat) < length (daily_sales all_orders)" using l by simp
  from rolling_avg_trailing_mean [OF this] show ?thesis using l t by simp
qed

section \<open>Properties of the cancellation figure\<close>

lemma cancelled_column_iff:
  "(''Cancelled'' \<in> set (status_columns fd)) = (\<exists>r \<in> set fd. is_cancelled r)"
  by (auto simp add: status_columns_def group_keys_set is_cancelled_def intro: rev_image_eqI)

lemma cancel_chart_marker_iff:
  "(cancel_chart fd = No_Cancellation_Data) = (\<forall>r \<in> set fd. \<not> is_cancelled r)"
  by (simp add: cancel_chart_def cancelled_column_iff)

text \<open>
  C8. When no order of the filtered view has the status \<^verbatim>\<open>Cancelled\<close>, the
  cancellation figure is the placeholder "No cancellation data available", which
  is not a bar chart of any rows, zero-filled or other.
\<close>

theorem cancel_chart_no_cancellations:
  assumes "\<forall>r \<in> set fd. Order_Status r \<noteq> ''Cancelled''"
  shows "cancel_chart fd = No_Cancellation_Data \<and> (\<forall>bars. cancel_chart fd \<noteq> Cancel_Bars bars)"
proof -
  have "\<not> (\<exists>r \<in> set fd. is_cancelled r)" using assms by (simp add: is_cancelled_def)
  then have "cancel_chart fd = No_Cancellation_Data"
    by (simp add: cancel_chart_def cancelled_column_iff)
  then show ?thesis by simp
qed

theorem cancel_chart_no_cancellations_witness:
  "map Order_Status shipped_orders = [''Shipped'', ''Shipped'', ''Shipped''] \<and>
   cancel_chart shipped_orders = No_Cancellation_Data \<and>
   cancel_chart shipped_orders \<noteq> Cancel_Bars []"
proof -
  have m: "map Order_Status shipped_orders = [''Shipped'', ''Shipped'', ''Shipped'']"
    by code_simp
  have h: "\<forall>r \<in> set shipped_orders. Order_Status r \<noteq> ''Cancelled''"
    by (simp add: shipped_orders_def order_a_def order_b_def order_c_def an_order_def)
  from cancel_chart_no_cancellations [OF h] m show ?thesis by simp
qed

section \<open>Properties of the promotion figure\<close>

lemma count_one_key:
  "distinct ks \<Longrightarrow> a \<in> set ks \<Longrightarrow> (\<Sum>k\<leftarrow>ks. if a = k then 1 else 0) = (1::nat)"
  by (induction ks) auto

lemma group_sizes_sum:
  assumes "distinct ks" and "col ` set df \<subseteq> set ks"
  shows "(\<Sum>k\<leftarrow>ks. length (group_rows col k df)) = length df"
  using assms(2)
proof (induction df)
  case Nil
  then show ?case by (simp add: group_rows_def)
next
  case (Cons x df)
  have "(\<Sum>k\<leftarrow>ks. length (group_rows col k (x # df))) =
        (\<Sum>k\<leftarrow>ks. (if col x = k then 1 else 0) + length (group_rows col k df))"
    by (rule arg_cong [where f = sum_list]) (simp add: group_rows_def)
  also have "\<dots> = (\<Sum>k\<leftarrow>ks. if col x = k then 1 else 0) + (\<Sum>k\<leftarrow>ks. length (group_rows col k df))"
    by (simp add: sum_list_addf)
  also have "\<dots> = 1 + length df"
    using Cons count_one_key [OF assms(1), of "col x"] by simp
  finally show ?case by simp
qed

lemma promo_keys: "map Has_Promotion (promo_impact fnc) = group_keys has_promo fnc"
  by (simp add: promo_impact_def comp_def)

lemma promo_counts:
  "map Order_Count (promo_impact fnc) =
     map (\<lambda>k. length (group_rows has_promo k fnc)) (group_keys has_promo fnc)"
  by (simp add: promo_impact_def comp_def)

text \<open>
  C4, as the code has it. The promotion frame has one row for each partition
  that has an order and none for an empty one, no partition twice, the row
  without promotion before the row with; each row counts the orders of its
  partition, at least one; and the counts of the rows add up to the number of
  orders of the view.
\<close>

theorem promo_impact_partitions:
  "(\<forall>k. (k \<in> set (map Has_Promotion (promo_impact fnc))) = (\<exists>r \<in> set fnc. has_promo r = k)) \<and>
   distinct (map Has_Promotion (promo_impact fnc)) \<and>
   sorted (map Has_Promotion (promo_impact fnc)) \<and>
   (\<forall>row \<in> set (promo_impact fnc).
      Order_Count row = length (filter (\<lambda>r. has_promo r = Has_Promotion row) fnc) \<and>
      0 < Order_Count row) \<and>
   sum_list (map Order_Count (promo_impact fnc)) = length fnc"
proof (intro conjI allI ballI)
  fix k
  show "(k \<in> set (map Has_Promotion (promo_impact fnc))) = (\<exists>r \<in> set fnc. has_promo r = k)"
    by (auto simp add: promo_keys group_keys_set)
next
  show "distinct (map Has_Promotion (promo_impact fnc))"
    by (simp add: promo_keys group_keys_distinct)
next
  show "sorted (map Has_Promotion (promo_impact fnc))"
    by (simp add: promo_keys group_keys_sorted)
next
  fix row assume row: "row \<in> set (promo_impact fnc)"
  then show c: "Order_Count row = length (filter (\<lambda>r. has_promo r = Has_Promotion row) fnc)"
    by (auto simp add: promo_impact_def group_rows_def)
  have "Has_Promotion row \<in> set (map Has_Promotion (promo_impact fnc))" using row by simp
  then have "\<exists>r \<in> set fnc. has_promo r = Has_Promotion row"
    by (auto simp add: promo_keys group_keys_set)
  then have "filter (\<lambda>r. has_promo r = Has_Promotion row) fnc \<noteq> []"
    by (auto simp add: filter_empty_conv)
  then show "0 < Order_Count row" using c by simp
next
  have "has_promo ` set fnc \<subseteq> set (group_keys has_promo fnc)" by (simp add: group_keys_set)
  from group_sizes_sum [OF group_keys_distinct this]
  show "sum_list (map Order_Count (promo_impact fnc)) = length fnc"
    by (simp add: promo_counts)
qed

theorem promo_impact_partitions_witness:
  "map Has_Promotion (promo_impact shipped_orders) = [False, True] \<and>
   map Promotion (promo_impact shipped_orders) = [''No Promotion'', ''With Promotion''] \<and>
   sorted (map Has_Promotion (promo_impact shipped_orders)) \<and>
   map Order_Count (promo_impact shipped_orders) = [1, 2] \<and>
   sum_list (map Order_Count (promo_impact shipped_orders)) = length shipped_orders"
proof -
  have "map Has_Promotion (promo_impact shipped_orders) = [False, True]" by code_simp
  moreover have "map Order_Count (promo_impact shipped_orders) = [1, 2]" by code_simp
  moreover have "map Promotion (promo_impact shipped_orders) =
      [''No Promotion'', ''With Promotion'']" by code_simp
  ultimately show ?thesis using promo_impact_partitions [of shipped_orders] by simp
qed

text \<open>
  C4 as stated fails: on a view whose orders all carry a promotion the frame has
  the single row "With Promotion"; no zero-filled "No Promotion" row is there.
\<close>

theorem promo_impact_one_sided_counterexample:
  "map Promotion (promo_impact [order_b, order_c]) = [''With Promotion''] \<and>
   ''No Promotion'' \<notin> set (map Promotion (promo_impact [order_b, order_c]))"
  by code_simp

section \<open>Properties of the filter\<close>

text \<open>
  C3, as the code has it. The date window is applied only when both ends are
  given: with either end absent the frame passes unchanged, so the end that was
  given is not applied either; with both, exactly the rows with
  \<open>start \<le> Order_Date \<le> end\<close> stay.
\<close>

theorem filter_dates_needs_both_bounds:
  "(start_date = None \<or> end_date = None \<longrightarrow> filter_dates start_date end_date df = df) \<and>
   set (rows (filter_dates (Some s) (Some e) df)) =
     {r \<in> set (rows df). s \<le> Order_Date r \<and> Order_Date r \<le> e}"
  by (auto simp add: filter_dates_def select_rows_def split: option.splits)

theorem filter_dates_needs_both_bounds_witness:
  "rows (filter_dates (Some 86400) None \<lparr>rows = all_orders, derived_columns = []\<rparr>) = all_orders \<and>
   set (rows (filter_dates (Some 86400) (Some 90000) \<lparr>rows = all_orders, derived_columns = []\<rparr>))
     = set [order_b, order_c]"
proof -
  have "filter (\<lambda>r. 86400 \<le> Order_Date r \<and> Order_Date r \<le> 90000) all_orders = [order_b, order_c]"
    by code_simp
  then have "{r \<in> set all_orders. 86400 \<le> Order_Date r \<and> Order_Date r \<le> 90000} = set [order_b, order_c]"
    by (metis set_filter)
  then show ?thesis
    using filter_dates_needs_both_bounds
      [of "Some 86400" None "\<lparr>rows = all_orders, derived_columns = []\<rparr>" 86400 90000]
    by simp
qed

text \<open>
  C3 as stated fails: with a start date and no end date, an order dated before
  the start date is still in the filtered view.
\<close>

theorem filter_single_bound_counterexample:
  "order_a \<in> set (rows (filtered_data_of \<lparr>rows = all_orders, derived_columns = []\<rparr>
                          (Some 86400) None None)) \<and>
   Order_Date order_a < 86400"
  by code_simp

section \<open>Properties of the callback\<close>

lemma calc_kpis_returns: "\<exists>k. calc_kpis fd fnc = Inr k"
  by (simp add: calc_kpis_def Let_def calc_cancellation_rate_value calc_avg_order_value_value)

lemma assign_column_rows: "rows (assign_column c df) = rows df"
  by (simp add: assign_column_def)

lemma assign_column_names:
  "set (derived_columns (assign_column c df)) = insert c (set (derived_columns df))"
  by (auto simp add: assign_column_def)

lemma assign_column_twice: "assign_column c (assign_column c df) = assign_column c df"
  by (simp add: assign_column_def)

lemma state_category_section_request:
  "state_category_section
     (g\<lparr>amazon_sales_data_filtered := a, non_cancelled_orders_filtered := b\<rparr>)
     = state_category_section g"
  by (simp add: state_category_section_def)

lemma update_dashboard_stacked_bar:
  "figures_of (update_dashboard lib g sd ed c) = Some d \<Longrightarrow>
     fig_stacked_bar d = stacked_bar_data 15 (rows (non_cancelled_orders g))"
  by (auto simp add: update_dashboard_def figures_of_def Let_def state_category_section_def
      split: sum.splits prod.splits)

lemma update_dashboard_parse_error:
  "parse_dates (to_datetime lib) sd ed = Inl x \<Longrightarrow>
     update_dashboard lib g sd ed c = (g, Inl x)"
  by (simp add: update_dashboard_def)

lemma update_dashboard_rows:
  "rows (amazon_sales_data (globals_after (update_dashboard lib g sd ed c)))
     = rows (amazon_sales_data g)"
  by (simp add: update_dashboard_def globals_after_def Let_def assign_column_rows
      split: sum.splits prod.splits)

lemma update_dashboard_non_cancelled:
  "non_cancelled_orders (globals_after (update_dashboard lib g sd ed c))
     = non_cancelled_orders g"
  by (simp add: update_dashboard_def globals_after_def Let_def
      split: sum.splits prod.splits)

lemma update_dashboard_columns:
  "set (derived_columns (amazon_sales_data (globals_after (update_dashboard lib g sd ed c))))
     - {''Month_Name''} = set (derived_columns (amazon_sales_data g)) - {''Month_Name''}"
  by (simp add: update_dashboard_def globals_after_def Let_def assign_column_names
      split: sum.splits prod.splits)

lemma update_dashboard_month_name:
  "figures_of (update_dashboard lib g sd ed c) \<noteq> None \<Longrightarrow>
     set (derived_columns (amazon_sales_data (globals_after (update_dashboard lib g sd ed c))))
       = insert ''Month_Name'' (set (derived_columns (amazon_sales_data g)))"
  by (simp add: update_dashboard_def globals_after_def figures_of_def Let_def
      assign_column_names split: sum.splits prod.splits)

lemma update_dashboard_binds:
  "parse_dates (to_datetime lib) sd ed = Inr (s, e) \<Longrightarrow>
     amazon_sales_data_filtered (globals_after (update_dashboard lib g sd ed c))
       = Some (filtered_data_of (amazon_sales_data g) s e c) \<and>
     non_cancelled_orders_filtered (globals_after (update_dashboard lib g sd ed c))
       = Some (drop_cancelled (filtered_data_of (amazon_sales_data g) s e c))"
  by (simp add: update_dashboard_def globals_after_def Let_def
      split: sum.splits prod.splits)

text \<open>
  C10, as the code has it. However a call ends, it leaves the rows of the loaded
  table and the non-cancelled table as they were and adds no column other than
  \<^verbatim>\<open>Month_Name\<close>. It is not free of effects. A call whose dates do not parse
  raises with the globals untouched. A call that gets past the dates binds the
  two globals of the filtered views to the views of this call, also when it
  raises later. A call that returns has assigned the column \<^verbatim>\<open>Month_Name\<close> to
  the loaded table.
\<close>

theorem update_dashboard_effects:
  "rows (amazon_sales_data (globals_after (update_dashboard lib g sd ed c)))
     = rows (amazon_sales_data g) \<and>
   non_cancelled_orders (globals_after (update_dashboard lib g sd ed c))
     = non_cancelled_orders g \<and>
   set (derived_columns (amazon_sales_data (globals_after (update_dashboard lib g sd ed c))))
     - {''Month_Name''} = set (derived_columns (amazon_sales_data g)) - {''Month_Name''} \<and>
   (\<forall>x. parse_dates (to_datetime lib) sd ed = Inl x \<longrightarrow>
      update_dashboard lib g sd ed c = (g, Inl x)) \<and>
   (\<forall>s e. parse_dates (to_datetime lib) sd ed = Inr (s, e) \<longrightarrow>
      amazon_sales_data_filtered (globals_after (update_dashboard lib g sd ed c))
        = Some (filtered_data_of (amazon_sales_data g) s e c) \<and>
      non_cancelled_orders_filtered (globals_after (update_dashboard lib g sd ed c))
        = Some (drop_cancelled (filtered_data_of (amazon_sales_data g) s e c))) \<and>
   (figures_of (update_dashboard lib g sd ed c) \<noteq> None \<longrightarrow>
      set (derived_columns (amazon_sales_data (globals_after (update_dashboard lib g sd ed c))))
        = insert ''Month_Name'' (set (derived_columns (amazon_sales_data g))))"
  using update_dashboard_rows [of lib g sd ed c]
    update_dashboard_non_cancelled [of lib g sd ed c]
    update_dashboard_columns [of lib g sd ed c]
    update_dashboard_parse_error [of lib sd ed _ g c]
    update_dashboard_binds [of lib sd ed _ _ g c]
    update_dashboard_month_name [of lib g sd ed c]
  by blast

theorem update_dashboard_effects_witness:
  "rows (amazon_sales_data (globals_after
      (update_dashboard sample_library (module_globals all_orders)
         (Some ''1970-01-01'') (Some ''1970-01-02'') None))) = all_orders \<and>
   map_option rows (amazon_sales_data_filtered (globals_after
      (update_dashboard sample_library (module_globals all_orders)
         (Some ''1970-01-01'') (Some ''1970-01-02'') None))) = Some [order_a, order_b] \<and>
   set (derived_columns (amazon_sales_data (globals_after
      (update_dashboard sample_library (module_globals all_orders)
         (Some ''1970-01-01'') (Some ''1970-01-02'') None))))
     = {''Week'', ''Month'', ''Day'', ''Month_Name''} \<and>
   update_dashboard sample_library (module_globals all_orders)
       (Some ''1970-01-01'') (Some ''yesterday'') None
     = (module_globals all_orders, Inl ValueError)"
proof -
  have r: "rows (amazon_sales_data (module_globals all_orders)) = all_orders"
    by (simp add: module_globals_def load_and_preprocess_data_def Let_def assign_column_rows)
  have d: "set (derived_columns (amazon_sales_data (module_globals all_orders)))
             = {''Week'', ''Month'', ''Day''}"
    by (simp add: module_globals_def load_and_preprocess_data_def Let_def assign_column_names
        insert_commute)
  have p: "parse_dates (to_datetime sample_library) (Some ''1970-01-01'') (Some ''1970-01-02'')
             = Inr (Some 0, Some 86400)"
    by code_simp
  have q: "parse_dates (to_datetime sample_library) (Some ''1970-01-01'') (Some ''yesterday'')
             = Inl ValueError"
    by code_simp
  have f: "rows (filtered_data_of (amazon_sales_data (module_globals all_orders))
             (Some 0) (Some 86400) None) = [order_a, order_b]"
    by code_simp
  have ret: "figures_of (update_dashboard sample_library (module_globals all_orders)
             (Some ''1970-01-01'') (Some ''1970-01-02'') None) \<noteq> None"
    by code_simp
  from update_dashboard_effects [of sample_library "module_globals all_orders"
      "Some ''1970-01-01''" "Some ''1970-01-02''" None]
    update_dashboard_effects [of sample_library "module_globals all_orders"
      "Some ''1970-01-01''" "Some ''yesterday''" None]
  show ?thesis by (simp add: r d p q f ret insert_commute)
qed

text \<open>
  C10 as stated fails: after the first call on a table of four orders the loaded
  table has a column more than before, and the global of the filtered view,
  unbound before, holds the view of the call.
\<close>

theorem update_dashboard_mutates_counterexample:
  "derived_columns (amazon_sales_data (module_globals all_orders)) = [''Week'', ''Month'', ''Day''] \<and>
   derived_columns (amazon_sales_data (globals_after
      (update_dashboard sample_library (module_globals all_orders) None None None)))
     = [''Week'', ''Month'', ''Day'', ''Month_Name''] \<and>
   amazon_sales_data_filtered (module_globals all_orders) = None \<and>
   map_option rows (amazon_sales_data_filtered (globals_after
      (update_dashboard sample_library (module_globals all_orders) None None None)))
     = Some all_orders"
  by code_simp

text \<open>
  C2 fails on the code. With the category \<^verbatim>\<open>Kurta\<close> selected, the matrix the
  state by category section computes, also on the globals as the call leaves
  them, still has the column \<^verbatim>\<open>Set\<close> and the state \<^verbatim>\<open>KA\<close>: it is the matrix
  of the unfiltered non-cancelled table. The matrix of the filtered
  non-cancelled view has the one cell of \<^verbatim>\<open>MH\<close> and \<^verbatim>\<open>Kurta\<close>. The figure
  the call returns in the place of the heatmap, the stacked bars, is that of the
  unfiltered table as well.
\<close>

theorem heatmap_ignores_filter:
  "fst (state_category_section (globals_after
      (update_dashboard sample_library (module_globals all_orders) None None (Some ''Kurta''))))
     = \<lparr>hm_index = [''KA'', ''MH''], hm_columns = [''Kurta'', ''Set''],
        hm_values = [[0, 1], [1, 1]]\<rparr> \<and>
   heatmap_data 15
     (rows (drop_cancelled
        (filtered_data_of (amazon_sales_data (module_globals all_orders))
           None None (Some ''Kurta''))))
     = \<lparr>hm_index = [''MH''], hm_columns = [''Kurta''], hm_values = [[1]]\<rparr> \<and>
   map_option fig_stacked_bar
     (figures_of (update_dashboard sample_library (module_globals all_orders)
        None None (Some ''Kurta'')))
     = Some [((''MH'', ''Kurta''), 1), ((''MH'', ''Set''), 1), ((''KA'', ''Set''), 1)] \<and>
   stacked_bar_data 15
     (rows (drop_cancelled
        (filtered_data_of (amazon_sales_data (module_globals all_orders))
           None None (Some ''Kurta''))))
     = [((''MH'', ''Kurta''), 1)]"
  by code_simp

section \<open>Properties of the rankings\<close>

lemma insort_key_ranked:
  assumes "sorted_wrt (\<lambda>a b. ranked_before col k b a) ys"
    and "\<forall>y \<in> set ys. k y < k x"
  shows "sorted_wrt (\<lambda>a b. ranked_before col k b a) (insort_key col x ys)"
  using assms
proof (induction ys)
  case Nil
  then show ?case by simp
next
  case (Cons y ys)
  show ?case
  proof (cases "col x \<le> col y")
    case True
    have "ranked_before col k z x" if "z \<in> set (y # ys)" for z
    proof -
      have "col y \<le> col z"
        using that Cons.prems(1) by (auto simp add: ranked_before_def)
      then have "col x \<le> col z" using True by simp
      moreover have "k z < k x" using that Cons.prems(2) by auto
      ultimately show ?thesis by (auto simp add: ranked_before_def)
    qed
    then show ?thesis using True Cons.prems(1) by simp
  next
    case False
    have tail: "sorted_wrt (\<lambda>a b. ranked_before col k b a) (insort_key col x ys)"
      using Cons by simp
    have "ranked_before col k z y" if "z \<in> set (insort_key col x ys)" for z
    proof (cases "z = x")
      case True
      then show ?thesis using False by (auto simp add: ranked_before_def not_le)
    next
      case False
      then have "z \<in> set ys" using that by (simp add: set_insort_key)
      then show ?thesis using Cons.prems(1) by simp
    qed
    then show ?thesis using False tail by simp
  qed
qed

lemma sort_key_ranked:
  "sorted_wrt (\<lambda>a b. k b < k a) zs \<Longrightarrow>
     sorted_wrt (\<lambda>a b. ranked_before col k b a) (sort_key col zs)"
proof (induction zs)
  case Nil
  then show ?case by simp
next
  case (Cons z zs)
  then have "\<forall>y \<in> set (sort_key col zs). k y < k z" by simp
  moreover have "sorted_wrt (\<lambda>a b. ranked_before col k b a) (sort_key col zs)"
    using Cons by simp
  ultimately show ?case by (simp add: insort_key_ranked)
qed

lemma sort_values_desc_ranked:
  assumes "sorted_wrt (<) (map k df)"
  shows "sorted_wrt (ranked_before col k) (sort_values_desc col df)"
proof -
  have "sorted_wrt (\<lambda>a b. k a < k b) df" using assms by (simp add: sorted_wrt_map)
  then have "sorted_wrt (\<lambda>a b. k b < k a) (rev df)" by (simp add: sorted_wrt_rev)
  then have "sorted_wrt (\<lambda>a b. ranked_before col k b a) (sort_key col (rev df))"
    by (rule sort_key_ranked)
  then show ?thesis by (simp add: sort_values_desc_def sorted_wrt_rev)
qed

lemma sort_values_desc_set: "set (sort_values_desc col df) = set df"
  by (simp add: sort_values_desc_def)

lemma sort_values_desc_length: "length (sort_values_desc col df) = length df"
  by (simp add: sort_values_desc_def)

lemma sort_values_desc_distinct: "distinct (sort_values_desc col df) = distinct df"
  by (simp add: sort_values_desc_def)

lemma head_ranked:
  "sorted_wrt (ranked_before col k) df \<Longrightarrow> sorted_wrt (ranked_before col k) (head n df)"
  by (simp add: head_def)

lemma group_keys_length: "length (group_keys col df) = card (col ` set df)"
  by (metis group_keys_distinct group_keys_set distinct_card)

lemma top_groups_ranked:
  "sorted_wrt (ranked_before Sale_Amount_sum group_key)
     (head n (sort_values_desc Sale_Amount_sum (groupby_agg col df)))"
  by (intro head_ranked sort_values_desc_ranked)
     (simp add: groupby_agg_keys group_keys_strict)

lemma top_groups_length:
  "length (head n (sort_values_desc Sale_Amount_sum (groupby_agg col df)))
     = min n (card (col ` set df))"
  by (simp add: head_def sort_values_desc_length groupby_agg_length group_keys_length min.commute)

lemma top_groups_subset:
  "set (head n (sort_values_desc Sale_Amount_sum (groupby_agg col df)))
     \<subseteq> set (groupby_agg col df)"
  using set_take_subset [of n "sort_values_desc Sale_Amount_sum (groupby_agg col df)"]
  by (simp add: head_def sort_values_desc_set)

lemma top_groups_all:
  "card (col ` set df) \<le> n \<Longrightarrow>
     set (head n (sort_values_desc Sale_Amount_sum (groupby_agg col df)))
       = set (groupby_agg col df)"
  by (simp add: head_def sort_values_desc_length sort_values_desc_set
      groupby_agg_length group_keys_length)

text \<open>
  C6, as the code has it. The category ranking is sorted by revenue alone, the
  larger first; categories with the same revenue stay in ascending order of
  their name, as the group-by left them, whatever their numbers of orders. It
  has the 10 first groups, or all groups when there are no more than 10.
\<close>

theorem category_sales_ranking:
  "sorted_wrt (ranked_before Sale_Amount_sum group_key) (category_sales fnc) \<and>
   length (category_sales fnc) = min 10 (card (Product_Category ` set fnc)) \<and>
   set (category_sales fnc) \<subseteq> set (groupby_agg Product_Category fnc) \<and>
   (card (Product_Category ` set fnc) \<le> 10 \<longrightarrow>
      set (category_sales fnc) = set (groupby_agg Product_Category fnc))"
  unfolding category_sales_def
  using top_groups_ranked [of 10 Product_Category fnc]
    top_groups_length [of 10 Product_Category fnc]
    top_groups_subset [of 10 Product_Category fnc]
    top_groups_all [of Product_Category fnc 10]
  by simp

theorem category_sales_ranking_witness:
  "map group_key (category_sales all_orders) = [''Kurta'', ''Set'', ''Top''] \<and>
   map Sale_Amount_sum (category_sales all_orders) = [10, 10, 7] \<and>
   sorted_wrt (ranked_before Sale_Amount_sum group_key) (category_sales all_orders) \<and>
   length (category_sales all_orders) = 3"
proof -
  have "map group_key (category_sales all_orders) = [''Kurta'', ''Set'', ''Top'']" by code_simp
  moreover have "map Sale_Amount_sum (category_sales all_orders) = [10, 10, 7]" by code_simp
  moreover have "length (category_sales all_orders) = 3" by code_simp
  ultimately show ?thesis using category_sales_ranking [of all_orders] by simp
qed

text \<open>
  C6 as stated fails: two categories with the same revenue, the first with one
  order and the second with two, are ranked in this order; the number of orders
  does not break the tie.
\<close>

theorem category_sales_tie_counterexample:
  "map group_key (category_sales shipped_orders) = [''Kurta'', ''Set''] \<and>
   map Sale_Amount_sum (category_sales shipped_orders) = [10, 10] \<and>
   map Order_ID_count (category_sales shipped_orders) = [1, 2]"
  by code_simp

section \<open>Properties of the state by category matrix\<close>

lemma groupby_size_keys: "map fst (groupby_size col df) = group_keys col df"
  by (simp add: groupby_size_def comp_def)

lemma groupby_size_lookup:
  "map_of (groupby_size col df) k =
     (if k \<in> col ` set df then Some (length (group_rows col k df)) else None)"
  by (simp add: groupby_size_def map_of_map_restrict restrict_map_def group_keys_set)

lemma map_of_filter_key:
  "map_of (filter (\<lambda>row. Q (fst row)) xs) k = (if Q k then map_of xs k else None)"
  by (induction xs) auto

lemma long_table_lookup:
  "map_of (state_category_orders_filtered N df) (s, c) =
     (if s \<in> set (top_n_states_list N df) \<and> (s, c) \<in> state_category ` set df
      then Some (length (group_rows state_category (s, c) df)) else None)"
proof -
  have "map_of (state_category_orders_filtered N df) (s, c) =
      (if fst (s, c) \<in> set (top_n_states_list N df)
       then map_of (groupby_size state_category df) (s, c) else None)"
    unfolding state_category_orders_filtered_def
    by (rule map_of_filter_key [where Q = "\<lambda>key. fst key \<in> set (top_n_states_list N df)"])
  then show ?thesis by (simp add: groupby_size_lookup)
qed

lemma pair_rows:
  "group_rows state_category (s, c) df =
     filter (\<lambda>r. Shipping_State r = s \<and> Product_Category r = c) df"
  by (simp add: group_rows_def state_category_def)

lemma no_rows_of_absent_pair:
  "(s, c) \<notin> state_category ` set df \<Longrightarrow>
     filter (\<lambda>r. Shipping_State r = s \<and> Product_Category r = c) df = []"
  by (auto simp add: filter_empty_conv state_category_def image_iff)

lemma cell_value:
  assumes "s \<in> set (top_n_states_list N df)"
  shows "fillna 0 (map_of (state_category_orders_filtered N df) (s, c)) =
           length (filter (\<lambda>r. Shipping_State r = s \<and> Product_Category r = c) df)"
proof (cases "(s, c) \<in> state_category ` set df")
  case True
  then show ?thesis using assms by (simp add: long_table_lookup fillna_def pair_rows)
next
  case False
  then show ?thesis
    using assms no_rows_of_absent_pair [OF False]
    by (simp add: long_table_lookup fillna_def)
qed

lemma top_states_subset: "set (top_n_states_list N df) \<subseteq> Shipping_State ` set df"
proof -
  have "set (head N (sort_values_desc snd (groupby_size Shipping_State df)))
          \<subseteq> set (groupby_size Shipping_State df)"
    using set_take_subset [of N "sort_values_desc snd (groupby_size Shipping_State df)"]
    by (simp add: head_def sort_values_desc_set)
  then have "set (top_n_states_list N df) \<subseteq> fst ` set (groupby_size Shipping_State df)"
    by (auto simp add: top_n_states_list_def)
  moreover have "fst ` set (groupby_size Shipping_State df) = Shipping_State ` set df"
    using groupby_size_keys [of Shipping_State df] group_keys_set [of Shipping_State df]
    by (metis set_map)
  ultimately show ?thesis by simp
qed

lemma long_table_set:
  "set (state_category_orders_filtered N df) =
     {row \<in> set (groupby_size state_category df). fst (fst row) \<in> set (top_n_states_list N df)}"
  by (simp add: state_category_orders_filtered_def)

lemma long_table_keys_image:
  "fst ` set (groupby_size state_category df) = state_category ` set df"
  using groupby_size_keys [of state_category df] group_keys_set [of state_category df]
  by (metis set_map)

lemma long_table_states:
  "(\<lambda>row. fst (fst row)) ` set (state_category_orders_filtered N df) = set (top_n_states_list N df)"
proof (intro set_eqI iffI)
  fix s assume "s \<in> (\<lambda>row. fst (fst row)) ` set (state_category_orders_filtered N df)"
  then show "s \<in> set (top_n_states_list N df)" by (auto simp add: long_table_set)
next
  fix s assume s: "s \<in> set (top_n_states_list N df)"
  then obtain r where r: "r \<in> set df" "Shipping_State r = s"
    using top_states_subset [of N df] by auto
  then have "state_category r \<in> fst ` set (groupby_size state_category df)"
    by (simp add: long_table_keys_image)
  then obtain row where row: "row \<in> set (groupby_size state_category df)"
      "fst row = state_category r" by auto
  then have "fst (fst row) = s" using r by (simp add: state_category_def)
  then have "row \<in> set (state_category_orders_filtered N df)"
    using row s by (simp add: long_table_set)
  then show "s \<in> (\<lambda>row. fst (fst row)) ` set (state_category_orders_filtered N df)"
    using \<open>fst (fst row) = s\<close> by (metis (mono_tags, lifting) image_eqI)
qed

lemma heatmap_index:
  "hm_index (heatmap_data N df) =
     group_keys (\<lambda>row. fst (fst row)) (state_category_orders_filtered N df)"
  by (simp add: heatmap_data_def pivot_def Let_def)

lemma heatmap_columns:
  "hm_columns (heatmap_data N df) =
     group_keys (\<lambda>row. snd (fst row)) (state_category_orders_filtered N df)"
  by (simp add: heatmap_data_def pivot_def Let_def)

lemma heatmap_values:
  "hm_values (heatmap_data N df) =
     map (\<lambda>s. map (\<lambda>c. fillna 0 (map_of (state_category_orders_filtered N df) (s, c)))
                (hm_columns (heatmap_data N df)))
         (hm_index (heatmap_data N df))"
  by (simp add: heatmap_data_def pivot_def Let_def)

lemma heatmap_index_set: "set (hm_index (heatmap_data N df)) = set (top_n_states_list N df)"
  by (simp add: heatmap_index group_keys_set long_table_states)

lemma heatmap_columns_set:
  "set (hm_columns (heatmap_data N df)) =
     Product_Category ` {r \<in> set df. Shipping_State r \<in> set (top_n_states_list N df)}"
proof (intro set_eqI iffI)
  fix c assume "c \<in> set (hm_columns (heatmap_data N df))"
  then obtain row where row: "row \<in> set (state_category_orders_filtered N df)"
      "snd (fst row) = c"
    by (auto simp add: heatmap_columns group_keys_set)
  then have top: "fst (fst row) \<in> set (top_n_states_list N df)"
    and "fst row \<in> fst ` set (groupby_size state_category df)"
    by (auto simp add: long_table_set)
  then obtain r where r: "r \<in> set df" "state_category r = fst row"
    by (auto simp add: long_table_keys_image)
  then have "Shipping_State r = fst (fst row)" "Product_Category r = c"
    using row(2) by (auto simp add: state_category_def prod_eq_iff)
  then show "c \<in> Product_Category ` {r \<in> set df. Shipping_State r \<in> set (top_n_states_list N df)}"
    using r(1) top by auto
next
  fix c
  assume "c \<in> Product_Category ` {r \<in> set df. Shipping_State r \<in> set (top_n_states_list N df)}"
  then obtain r where r: "r \<in> set df" "Shipping_State r \<in> set (top_n_states_list N df)"
      "Product_Category r = c" by auto
  then have "state_category r \<in> fst ` set (groupby_size state_category df)"
    by (simp add: long_table_keys_image)
  then obtain row where row: "row \<in> set (groupby_size state_category df)"
      "fst row = state_category r" by auto
  then have "row \<in> set (state_category_orders_filtered N df)"
    using r(2) by (simp add: long_table_set state_category_def)
  moreover have "snd (fst row) = c" using row(2) r(3) by (simp add: state_category_def)
  ultimately show "c \<in> set (hm_columns (heatmap_data N df))"
    by (auto simp add: heatmap_columns group_keys_set image_iff)
qed

lemma stacked_bar_set:
  "set (stacked_bar_data N df) = set (state_category_orders_filtered N df)"
  by (simp add: stacked_bar_data_def sort_values_asc_def)

lemma groupby_size_set:
  "set (groupby_size col df) = (\<lambda>r. (col r, length (group_rows col (col r) df))) ` set df"
  by (auto simp add: groupby_size_def group_keys_set)

lemma stacked_bar_rows:
  "set (stacked_bar_data N df) =
     (\<lambda>r. ((Shipping_State r, Product_Category r),
            length (filter (\<lambda>q. Shipping_State q = Shipping_State r \<and>
                                 Product_Category q = Product_Category r) df)))
       ` {r \<in> set df. Shipping_State r \<in> set (top_n_states_list N df)}"
  by (auto simp add: stacked_bar_set long_table_set groupby_size_set state_category_def
      group_rows_def prod_eq_iff cong: conj_cong)

lemma stacked_bar_keys_distinct: "distinct (map fst (stacked_bar_data N df))"
proof -
  have "distinct (map fst (groupby_size state_category df))"
    by (simp add: groupby_size_keys group_keys_distinct)
  then have "distinct (map fst (state_category_orders_filtered N df))"
    by (simp add: state_category_orders_filtered_def distinct_map_filter)
  then show ?thesis
    by (simp add: stacked_bar_data_def sort_values_asc_def distinct_map)
qed

lemma stacked_bar_counts_positive:
  "row \<in> set (stacked_bar_data N df) \<Longrightarrow> 0 < snd row"
  by (auto simp add: stacked_bar_rows filter_empty_conv)

text \<open>
  C7, as the code has it. The matrix is rectangular and dense: one row for each
  of the top states, one column for each category that occurs among the orders
  of the top states, and in every cell the number of orders of that state and
  category, 0 where there is none. Its rows are in ascending order of the
  state's name, and its columns in ascending order of the category's name. The
  ranking order is that of the long table behind the stacked bars, not of the
  matrix. The long table has one row for each pair of a top state and a category
  that has an order, with the number of these orders, at least one: it has no
  row for a pair without an order.
\<close>

theorem heatmap_dense_rows_by_name:
  "length (hm_values (heatmap_data N df)) = length (hm_index (heatmap_data N df)) \<and>
   (\<forall>row \<in> set (hm_values (heatmap_data N df)).
      length row = length (hm_columns (heatmap_data N df))) \<and>
   (\<forall>i < length (hm_index (heatmap_data N df)).
    \<forall>j < length (hm_columns (heatmap_data N df)).
      hm_values (heatmap_data N df) ! i ! j =
        length (filter (\<lambda>r. Shipping_State r = hm_index (heatmap_data N df) ! i \<and>
                             Product_Category r = hm_columns (heatmap_data N df) ! j) df)) \<and>
   sorted_wrt (<) (hm_index (heatmap_data N df)) \<and>
   set (hm_index (heatmap_data N df)) = set (top_n_states_list N df) \<and>
   sorted_wrt (<) (hm_columns (heatmap_data N df)) \<and>
   set (hm_columns (heatmap_data N df)) =
     Product_Category ` {r \<in> set df. Shipping_State r \<in> set (top_n_states_list N df)} \<and>
   sorted (map (\<lambda>row. categorical_code (top_n_states_list N df) (fst (fst row)))
             (stacked_bar_data N df)) \<and>
   set (stacked_bar_data N df) =
     (\<lambda>r. ((Shipping_State r, Product_Category r),
            length (filter (\<lambda>q. Shipping_State q = Shipping_State r \<and>
                                 Product_Category q = Product_Category r) df)))
       ` {r \<in> set df. Shipping_State r \<in> set (top_n_states_list N df)} \<and>
   distinct (map fst (stacked_bar_data N df)) \<and>
   (\<forall>row \<in> set (stacked_bar_data N df). 0 < snd row)"
proof (intro conjI ballI allI impI)
  show "length (hm_values (heatmap_data N df)) = length (hm_index (heatmap_data N df))"
    by (subst heatmap_values) simp
  show "length row = length (hm_columns (heatmap_data N df))"
    if "row \<in> set (hm_values (heatmap_data N df))" for row
    using that by (subst (asm) heatmap_values) auto
  show "hm_values (heatmap_data N df) ! i ! j =
        length (filter (\<lambda>r. Shipping_State r = hm_index (heatmap_data N df) ! i \<and>
                             Product_Category r = hm_columns (heatmap_data N df) ! j) df)"
    if i: "i < length (hm_index (heatmap_data N df))"
      and j: "j < length (hm_columns (heatmap_data N df))" for i j
  proof -
    have "hm_index (heatmap_data N df) ! i \<in> set (top_n_states_list N df)"
      using i heatmap_index_set [of N df] nth_mem by blast
    from cell_value [OF this] show ?thesis
      using i j by (subst heatmap_values) simp
  qed
  show "sorted_wrt (<) (hm_index (heatmap_data N df))"
    by (simp add: heatmap_index group_keys_strict)
  show "set (hm_index (heatmap_data N df)) = set (top_n_states_list N df)"
    by (rule heatmap_index_set)
  show "sorted_wrt (<) (hm_columns (heatmap_data N df))"
    by (simp add: heatmap_columns group_keys_strict)
  show "set (hm_columns (heatmap_data N df)) =
     Product_Category ` {r \<in> set df. Shipping_State r \<in> set (top_n_states_list N df)}"
    by (rule heatmap_columns_set)
  show "sorted (map (\<lambda>row. categorical_code (top_n_states_list N df) (fst (fst row)))
             (stacked_bar_data N df))"
    by (simp add: stacked_bar_data_def sort_values_asc_def)
  show "set (stacked_bar_data N df) =
     (\<lambda>r. ((Shipping_State r, Product_Category r),
            length (filter (\<lambda>q. Shipping_State q = Shipping_State r \<and>
                                 Product_Category q = Product_Category r) df)))
       ` {r \<in> set df. Shipping_State r \<in> set (top_n_states_list N df)}"
    by (rule stacked_bar_rows)
  show "distinct (map fst (stacked_bar_data N df))"
    by (rule stacked_bar_keys_distinct)
  show "0 < snd row" if "row \<in> set (stacked_bar_data N df)" for row
    using that by (rule stacked_bar_counts_positive)
qed

theorem heatmap_dense_rows_by_name_witness:
  "heatmap_data 15 shipped_orders =
     \<lparr>hm_index = [''KA'', ''MH''], hm_columns = [''Kurta'', ''Set''],
      hm_values = [[0, 1], [1, 1]]\<rparr> \<and>
   set (hm_index (heatmap_data 15 shipped_orders)) = set (top_n_states_list 15 shipped_orders) \<and>
   stacked_bar_data 15 shipped_orders =
     [((''MH'', ''Kurta''), 1), ((''MH'', ''Set''), 1), ((''KA'', ''Set''), 1)] \<and>
   distinct (map fst (stacked_bar_data 15 shipped_orders))"
proof -
  have "heatmap_data 15 shipped_orders =
     \<lparr>hm_index = [''KA'', ''MH''], hm_columns = [''Kurta'', ''Set''],
      hm_values = [[0, 1], [1, 1]]\<rparr>" by code_simp
  moreover have "stacked_bar_data 15 shipped_orders =
     [((''MH'', ''Kurta''), 1), ((''MH'', ''Set''), 1), ((''KA'', ''Set''), 1)]" by code_simp
  ultimately show ?thesis
    using heatmap_dense_rows_by_name [of 15 shipped_orders] by simp
qed

text \<open>
  C7 as stated fails: with two orders in \<^verbatim>\<open>MH\<close> and one in \<^verbatim>\<open>KA\<close> the
  ranking is \<^verbatim>\<open>MH\<close>, \<^verbatim>\<open>KA\<close>, and the rows of the matrix are
  \<^verbatim>\<open>KA\<close>, \<^verbatim>\<open>MH\<close>.
\<close>

theorem heatmap_row_order_counterexample:
  "top_n_states_list 15 shipped_orders = [''MH'', ''KA''] \<and>
   hm_index (heatmap_data 15 shipped_orders) = [''KA'', ''MH'']"
  by code_simp

end
